theory Spec2Isabelle
  imports Main
begin

section \<open>Values carried by messages\<close>

text \<open>
  A message value is whatever \<^verbatim>\<open>json.loads\<close> returns: None, a bool, an int, a
  float, a str, a list or a dict with string keys. The consumer never computes with a
  float, so a float is kept as the literal the message carried. A dict is a list of
  bindings read with \<open>map_of\<close> (the first binding of a key is the one the dict holds).
\<close>

datatype pyval =
    PNone
  | PBool bool
  | PInt int
  | PFloat string
  | PStr string
  | PList "pyval list"
  | PDict "(string \<times> pyval) list"

type_synonym pydict = "(string \<times> pyval) list"

text \<open>\<^verbatim>\<open>d.get(k)\<close>: the value bound to \<open>k\<close>, None when the key is absent.\<close>

definition dict_get :: "pydict \<Rightarrow> string \<Rightarrow> pyval" where
  "dict_get d k = (case map_of d k of None \<Rightarrow> PNone | Some v \<Rightarrow> v)"

text \<open>\<^verbatim>\<open>xs[-n:]\<close> for a positive \<open>n\<close>: the last \<open>n\<close> elements, all of them when
  the list is shorter.\<close>

definition slice_last :: "nat \<Rightarrow> 'a list \<Rightarrow> 'a list" where
  "slice_last n xs = drop (length xs - n) xs"

section \<open>Clock, configuration and the HTTP call\<close>

text \<open>
  A reading of \<^verbatim>\<open>datetime.now()\<close>. The consumer observes a datetime in two ways:
  it subtracts and compares datetimes (the position on the clock, in microseconds) and it
  takes \<^verbatim>\<open>isoformat()\<close> of one (the string). Every reading of the clock is an input of
  the function that reads it.
\<close>

record datetime =
  micros :: int
  isoformat :: string

text \<open>\<^verbatim>\<open>timedelta(seconds=n)\<close> in microseconds.\<close>

definition timedelta_seconds :: "int \<Rightarrow> int" where
  "timedelta_seconds n = n * 1000000"

text \<open>The fields of \<^verbatim>\<open>Config\<close> that the consumer reads (config.py).\<close>

record config =
  CUSTOMER_TOPIC :: string
  INVENTORY_TOPIC :: string
  ANALYTICS_API_URL :: string

definition default_config :: config where
  "default_config =
     \<lparr>CUSTOMER_TOPIC = ''customer_data'',
      INVENTORY_TOPIC = ''inventory_data'',
      ANALYTICS_API_URL = ''http://localhost:8080''\<rparr>"

text \<open>The body of the POST (\<^verbatim>\<open>merged_data\<close>) and the call of \<^verbatim>\<open>requests.post\<close>.\<close>

record summary =
  total_customers :: nat
  total_products :: nat
  active_customers :: nat

record merged_data =
  timestamp :: string
  summary :: summary
  customers :: "pydict list"
  inventory :: "pydict list"

record http_request =
  url :: string
  json :: merged_data
  headers :: "(string \<times> string) list"
  timeout :: nat

text \<open>
  What \<^verbatim>\<open>requests.post\<close> does with a call: it returns a response (status code and
  text), raises a \<^verbatim>\<open>requests.exceptions.RequestException\<close> (timeouts and connection
  errors are subclasses), or raises some other exception, which the handler of
  \<^verbatim>\<open>merge_and_send_data\<close> does not catch.
\<close>

datatype http_outcome =
    Response int string
  | RequestException string
  | OtherException string

datatype error =
    AttributeError
  | Uncaught string

section \<open>The consumer\<close>

text \<open>
  The attributes of \<^verbatim>\<open>IntegrationConsumer\<close> that the methods read and write. The lock
  and the Kafka client are not part of the state: the model runs one method at a time.
  Log lines are not modelled.
\<close>

record consumer =
  config :: config
  customer_records :: "pydict list"
  inventory_records :: "pydict list"
  last_merge_time :: datetime
  merge_interval_seconds :: int

text \<open>\<^verbatim>\<open>__init__\<close>, with the reading of the clock that initialises
  \<^verbatim>\<open>last_merge_time\<close>.\<close>

definition IntegrationConsumer :: "config \<Rightarrow> datetime \<Rightarrow> consumer" where
  "IntegrationConsumer cfg now =
     \<lparr>config = cfg,
      customer_records = [],
      inventory_records = [],
      last_merge_time = now,
      merge_interval_seconds = 60\<rparr>"

text \<open>
  \<^verbatim>\<open>process_customer_record\<close> and \<^verbatim>\<open>process_inventory_record\<close>: a value that is
  not a dict has no \<^verbatim>\<open>get\<close>, so the first \<^verbatim>\<open>record.get\<close> raises AttributeError
  before anything is appended.
\<close>

definition process_customer_record :: "consumer \<Rightarrow> pyval \<Rightarrow> datetime \<Rightarrow> error + consumer" where
  "process_customer_record c record now =
     (case record of
        PDict d \<Rightarrow>
          Inr (c\<lparr>customer_records := customer_records c @
                 [[(''id'', dict_get d ''id''),
                   (''name'', dict_get d ''name''),
                   (''email'', dict_get d ''email''),
                   (''status'', dict_get d ''status''),
                   (''created_date'', dict_get d ''created_date''),
                   (''received_at'', PStr (isoformat now))]]\<rparr>)
      | _ \<Rightarrow> Inl AttributeError)"

definition process_inventory_record :: "consumer \<Rightarrow> pyval \<Rightarrow> datetime \<Rightarrow> error + consumer" where
  "process_inventory_record c record now =
     (case record of
        PDict d \<Rightarrow>
          Inr (c\<lparr>inventory_records := inventory_records c @
                 [[(''id'', dict_get d ''id''),
                   (''name'', dict_get d ''name''),
                   (''price'', dict_get d ''price''),
                   (''quantity'', dict_get d ''quantity''),
                   (''category'', dict_get d ''category''),
                   (''received_at'', PStr (isoformat now))]]\<rparr>)
      | _ \<Rightarrow> Inl AttributeError)"

text \<open>
  What a call leaves behind: the consumer after it, the calls of \<^verbatim>\<open>requests.post\<close>
  it made, in order, and the exception it raised to its caller, if any.
\<close>

record result =
  state :: consumer
  posts :: "http_request list"
  raised :: "error option"

text \<open>
  \<^verbatim>\<open>merge_and_send_data\<close>. \<open>now\<close> is the reading of the clock for the timestamp and
  \<open>outcome\<close> is what \<^verbatim>\<open>requests.post\<close> does if it is called. The two buffers are
  cut down only in the branch of status 200.
\<close>

definition merge_and_send_data :: "consumer \<Rightarrow> datetime \<Rightarrow> http_outcome \<Rightarrow> result" where
  "merge_and_send_data c now outcome =
     (if customer_records c = [] \<and> inventory_records c = []
      then \<lparr>state = c, posts = [], raised = None\<rparr>
      else
        let merged =
              \<lparr>timestamp = isoformat now,
               summary =
                 \<lparr>total_customers = length (customer_records c),
                  total_products = length (inventory_records c),
                  active_customers =
                    length (filter (\<lambda>r. dict_get r ''status'' = PStr ''active'')
                              (customer_records c))\<rparr>,
               customers = customer_records c,
               inventory = inventory_records c\<rparr>;
            request =
              \<lparr>url = ANALYTICS_API_URL (config c) @ ''/analytics/data'',
               json = merged,
               headers = [(''Content-Type'', ''application/json'')],
               timeout = 30\<rparr>
        in case outcome of
             Response status_code text \<Rightarrow>
               if status_code = 200
               then \<lparr>state = c
                      \<lparr>customer_records :=
                         (if length (customer_records c) > 100
                          then slice_last 100 (customer_records c) else []),
                       inventory_records :=
                         (if length (inventory_records c) > 100
                          then slice_last 100 (inventory_records c) else [])\<rparr>,
                     posts = [request], raised = None\<rparr>
               else \<lparr>state = c, posts = [request], raised = None\<rparr>
           | RequestException e \<Rightarrow> \<lparr>state = c, posts = [request], raised = None\<rparr>
           | OtherException e \<Rightarrow> \<lparr>state = c, posts = [request], raised = Some (Uncaught e)\<rparr>)"

definition should_merge_data :: "consumer \<Rightarrow> datetime \<Rightarrow> bool" where
  "should_merge_data c now =
     (micros now - micros (last_merge_time c) \<ge> timedelta_seconds (merge_interval_seconds c))"

section \<open>The consumer loop\<close>

record message =
  topic :: string
  msg_value :: pyval

text \<open>
  One pass through the body of the loop of \<^verbatim>\<open>consume_messages\<close> reads the clock up
  to four times and calls \<^verbatim>\<open>requests.post\<close> at most once: the readings and the
  outcome of the call are the environment of the pass.
\<close>

record tick =
  t_receive :: datetime
  t_check :: datetime
  t_merge :: datetime
  t_reset :: datetime
  post_outcome :: http_outcome

text \<open>The routing by topic, lines 121 to 125 of consumer.py.\<close>

definition route_message :: "consumer \<Rightarrow> message \<Rightarrow> datetime \<Rightarrow> error + consumer" where
  "route_message c m now =
     (if topic m = CUSTOMER_TOPIC (config c) then process_customer_record c (msg_value m) now
      else if topic m = INVENTORY_TOPIC (config c) then process_inventory_record c (msg_value m) now
      else Inr c)"

text \<open>The check of the schedule, lines 128 to 130: the assignment to
  \<^verbatim>\<open>last_merge_time\<close> is reached when \<^verbatim>\<open>merge_and_send_data\<close> returns.\<close>

definition flush_if_due :: "consumer \<Rightarrow> tick \<Rightarrow> result" where
  "flush_if_due c e =
     (if should_merge_data c (t_check e)
      then
        let r = merge_and_send_data c (t_merge e) (post_outcome e)
        in case raised r of
             Some err \<Rightarrow> r
           | None \<Rightarrow> r\<lparr>state := (state r)\<lparr>last_merge_time := t_reset e\<rparr>\<rparr>
      else \<lparr>state = c, posts = [], raised = None\<rparr>)"

text \<open>The body of the loop for one message.\<close>

definition consume_step :: "consumer \<Rightarrow> message \<Rightarrow> tick \<Rightarrow> result" where
  "consume_step c m e =
     (case route_message c m (t_receive e) of
        Inl err \<Rightarrow> \<lparr>state = c, posts = [], raised = Some err\<rparr>
      | Inr c' \<Rightarrow> flush_if_due c' e)"

text \<open>
  \<^verbatim>\<open>consume_messages\<close> over the messages the Kafka iterator yields before it stops or
  the process is interrupted. An exception in the body is caught by the handler of the
  loop, which logs it and leaves the loop: the method itself returns.
\<close>

fun consume_messages :: "consumer \<Rightarrow> (message \<times> tick) list \<Rightarrow> result" where
  "consume_messages c [] = \<lparr>state = c, posts = [], raised = None\<rparr>"
| "consume_messages c ((m, e) # rest) =
     (let r = consume_step c m e
      in case raised r of
           Some err \<Rightarrow> r\<lparr>raised := None\<rparr>
         | None \<Rightarrow>
             let r' = consume_messages (state r) rest
             in r'\<lparr>posts := posts r @ posts r'\<rparr>)"

text \<open>
  \<^verbatim>\<open>run\<close>: one call of \<^verbatim>\<open>merge_and_send_data\<close>, then the loop. An exception of
  the first call is not handled and ends \<^verbatim>\<open>run\<close>.
\<close>

definition run :: "consumer \<Rightarrow> datetime \<Rightarrow> http_outcome \<Rightarrow> (message \<times> tick) list \<Rightarrow> result" where
  "run c now outcome events =
     (let r = merge_and_send_data c now outcome
      in case raised r of
           Some err \<Rightarrow> r
         | None \<Rightarrow>
             let r' = consume_messages (state r) events
             in r'\<lparr>posts := posts r @ posts r'\<rparr>)"

section \<open>Test data\<close>

text \<open>The fixtures of tests/test\_consumer.py.\<close>

definition sample_customer :: pyval where
  "sample_customer =
     PDict [(''id'', PInt 1), (''name'', PStr ''John Doe''), (''email'', PStr ''john@example.com''),
            (''status'', PStr ''active''), (''created_date'', PStr ''2024-01-15'')]"

definition sample_product :: pyval where
  "sample_product =
     PDict [(''id'', PInt 101), (''name'', PStr ''Laptop''), (''price'', PFloat ''999.99''),
            (''quantity'', PInt 50), (''category'', PStr ''Electronics'')]"

text \<open>Readings of the clock used in the examples.\<close>

definition construction_time :: datetime where
  "construction_time = \<lparr>micros = 0, isoformat = ''2024-01-15T10:30:00''\<rparr>"

definition startup_time :: datetime where
  "startup_time = \<lparr>micros = 5000000, isoformat = ''2024-01-15T10:30:05''\<rparr>"

text \<open>A pass of the loop 61 seconds after construction, whose POST is answered with
  status 500, and a pass one second after construction.\<close>

definition due_tick :: tick where
  "due_tick =
     \<lparr>t_receive = \<lparr>micros = 61000000, isoformat = ''2024-01-15T10:31:01''\<rparr>,
      t_check = \<lparr>micros = 61000100, isoformat = ''2024-01-15T10:31:01.000100''\<rparr>,
      t_merge = \<lparr>micros = 61000200, isoformat = ''2024-01-15T10:31:01.000200''\<rparr>,
      t_reset = \<lparr>micros = 61500000, isoformat = ''2024-01-15T10:31:01.500000''\<rparr>,
      post_outcome = Response 500 ''Internal Server Error''\<rparr>"

definition early_tick :: tick where
  "early_tick =
     \<lparr>t_receive = \<lparr>micros = 1000000, isoformat = ''2024-01-15T10:30:01''\<rparr>,
      t_check = \<lparr>micros = 1000100, isoformat = ''2024-01-15T10:30:01.000100''\<rparr>,
      t_merge = \<lparr>micros = 1000200, isoformat = ''2024-01-15T10:30:01.000200''\<rparr>,
      t_reset = \<lparr>micros = 1500000, isoformat = ''2024-01-15T10:30:01.500000''\<rparr>,
      post_outcome = Response 200 ''ok''\<rparr>"

text \<open>The buffer as tests/test\_analytics\_integration.py sets it: one customer record.\<close>

definition one_customer :: consumer where
  "one_customer =
     (IntegrationConsumer default_config construction_time)
       \<lparr>customer_records := [[(''id'', PInt 1), (''name'', PStr ''John'')]]\<rparr>"

text \<open>105 customer records, as in test\_data\_cleanup\_after\_successful\_send.\<close>

definition many_customers :: consumer where
  "many_customers =
     (IntegrationConsumer default_config construction_time)
       \<lparr>customer_records :=
          map (\<lambda>i. [(''id'', PInt (int i)), (''name'', PStr ''John Doe''),
                     (''status'', PStr ''active'')]) [0..<105]\<rparr>"

text \<open>The consumer after the two sample records were processed.\<close>

definition john_and_laptop :: consumer where
  "john_and_laptop =
     (IntegrationConsumer default_config construction_time)
       \<lparr>customer_records :=
          [[(''id'', PInt 1), (''name'', PStr ''John Doe''), (''email'', PStr ''john@example.com''),
            (''status'', PStr ''active''), (''created_date'', PStr ''2024-01-15''),
            (''received_at'', PStr ''2024-01-15T10:30:01'')]],
        inventory_records :=
          [[(''id'', PInt 101), (''name'', PStr ''Laptop''), (''price'', PFloat ''999.99''),
            (''quantity'', PInt 50), (''category'', PStr ''Electronics''),
            (''received_at'', PStr ''2024-01-15T10:30:02'')]]\<rparr>"

section \<open>Auxiliary facts\<close>

lemma dict_get_PStr: "dict_get r k = PStr s \<longleftrightarrow> map_of r k = Some (PStr s)"
  by (simp add: dict_get_def split: option.splits)

lemma merge_state_cases:
  "state (merge_and_send_data c now outcome) =
     (if (customer_records c = [] \<and> inventory_records c = []) \<or> (\<forall>text. outcome \<noteq> Response 200 text)
      then c
      else c\<lparr>customer_records :=
                (if length (customer_records c) > 100 then slice_last 100 (customer_records c) else []),
              inventory_records :=
                (if length (inventory_records c) > 100 then slice_last 100 (inventory_records c) else [])\<rparr>)"
  by (cases outcome) (auto simp: merge_and_send_data_def Let_def)

lemma merge_raised_cases:
  "raised (merge_and_send_data c now outcome) =
     (if customer_records c = [] \<and> inventory_records c = [] then None
      else case outcome of OtherException e \<Rightarrow> Some (Uncaught e) | _ \<Rightarrow> None)"
  by (cases outcome) (auto simp: merge_and_send_data_def Let_def)

section \<open>The retention trim and the outcome of the dispatch\<close>

text \<open>
  Claim C1, as the code has it: when at least one buffer is not empty, the buffers are
  cut down (each replaced by the empty list, or by its last 100 records when it held
  more than 100) exactly when the POST is answered with status 200. After any other
  status, and after an exception of the POST, both buffers are what they were before
  \<^verbatim>\<open>merge_and_send_data\<close> was called.
\<close>

theorem merge_trims_iff_status_200:
  assumes "customer_records c \<noteq> [] \<or> inventory_records c \<noteq> []"
  shows "((\<forall>text. outcome \<noteq> Response 200 text) \<longrightarrow>
            customer_records (state (merge_and_send_data c now outcome)) = customer_records c \<and>
            inventory_records (state (merge_and_send_data c now outcome)) = inventory_records c) \<and>
         ((\<exists>text. outcome = Response 200 text) \<longrightarrow>
            customer_records (state (merge_and_send_data c now outcome)) =
              (if length (customer_records c) > 100 then slice_last 100 (customer_records c) else []) \<and>
            inventory_records (state (merge_and_send_data c now outcome)) =
              (if length (inventory_records c) > 100 then slice_last 100 (inventory_records c) else []))"
  using assms by (cases outcome) (auto simp: merge_and_send_data_def Let_def)

text \<open>At one buffered record: a timeout leaves the record, status 200 empties the buffer.\<close>

theorem merge_trims_iff_status_200_witness:
  "customer_records one_customer \<noteq> [] \<and>
   customer_records (state (merge_and_send_data one_customer startup_time
      (RequestException ''timed out''))) = customer_records one_customer \<and>
   customer_records (state (merge_and_send_data one_customer startup_time
      (Response 200 ''ok''))) = []"
  using merge_trims_iff_status_200 [of one_customer "RequestException ''timed out''" startup_time]
        merge_trims_iff_status_200 [of one_customer "Response 200 ''ok''" startup_time]
  by (simp add: one_customer_def IntegrationConsumer_def)

text \<open>Claim C1 as stated fails: the buffer holds one record (at most 100, so the trim would empty it), the POST is answered with status 500, and the record is still there.\<close>

theorem trim_skipped_on_status_500:
  "length (customer_records one_customer) \<le> 100 \<and>
   customer_records (state (merge_and_send_data one_customer startup_time
      (Response 500 ''Internal Server Error''))) \<noteq> []"
  by (simp add: merge_and_send_data_def one_customer_def IntegrationConsumer_def)

section \<open>What the two process methods store\<close>

text \<open>
  Claim C2, as the code has it: for every dict payload, \<^verbatim>\<open>process_customer_record\<close>
  and \<^verbatim>\<open>process_inventory_record\<close> check no value and append one record to their
  own buffer. Under each of the five keys the method names, the record holds what
  \<^verbatim>\<open>get\<close> returns for that key of the payload; under \<^verbatim>\<open>received_at\<close> it holds
  the time of the append; it holds nothing under any other key.
\<close>

theorem process_record_stores_named_fields:
  "(\<exists>r. process_customer_record c (PDict d) now =
          Inr (c\<lparr>customer_records := customer_records c @ [r]\<rparr>) \<and>
        (\<forall>k \<in> set [''id'', ''name'', ''email'', ''status'', ''created_date''].
           map_of r k = Some (dict_get d k)) \<and>
        map_of r ''received_at'' = Some (PStr (isoformat now)) \<and>
        (\<forall>k. k \<notin> set [''id'', ''name'', ''email'', ''status'', ''created_date'', ''received_at'']
           \<longrightarrow> map_of r k = None)) \<and>
   (\<exists>r. process_inventory_record c (PDict d) now =
          Inr (c\<lparr>inventory_records := inventory_records c @ [r]\<rparr>) \<and>
        (\<forall>k \<in> set [''id'', ''name'', ''price'', ''quantity'', ''category''].
           map_of r k = Some (dict_get d k)) \<and>
        map_of r ''received_at'' = Some (PStr (isoformat now)) \<and>
        (\<forall>k. k \<notin> set [''id'', ''name'', ''price'', ''quantity'', ''category'', ''received_at'']
           \<longrightarrow> map_of r k = None))"
proof (intro conjI)
  show "\<exists>r. process_customer_record c (PDict d) now =
          Inr (c\<lparr>customer_records := customer_records c @ [r]\<rparr>) \<and>
        (\<forall>k \<in> set [''id'', ''name'', ''email'', ''status'', ''created_date''].
           map_of r k = Some (dict_get d k)) \<and>
        map_of r ''received_at'' = Some (PStr (isoformat now)) \<and>
        (\<forall>k. k \<notin> set [''id'', ''name'', ''email'', ''status'', ''created_date'', ''received_at'']
           \<longrightarrow> map_of r k = None)"
    by (rule exI [of _ "[(''id'', dict_get d ''id''), (''name'', dict_get d ''name''),
                         (''email'', dict_get d ''email''), (''status'', dict_get d ''status''),
                         (''created_date'', dict_get d ''created_date''),
                         (''received_at'', PStr (isoformat now))]"])
       (simp add: process_customer_record_def)
  show "\<exists>r. process_inventory_record c (PDict d) now =
          Inr (c\<lparr>inventory_records := inventory_records c @ [r]\<rparr>) \<and>
        (\<forall>k \<in> set [''id'', ''name'', ''price'', ''quantity'', ''category''].
           map_of r k = Some (dict_get d k)) \<and>
        map_of r ''received_at'' = Some (PStr (isoformat now)) \<and>
        (\<forall>k. k \<notin> set [''id'', ''name'', ''price'', ''quantity'', ''category'', ''received_at'']
           \<longrightarrow> map_of r k = None)"
    by (rule exI [of _ "[(''id'', dict_get d ''id''), (''name'', dict_get d ''name''),
                         (''price'', dict_get d ''price''), (''quantity'', dict_get d ''quantity''),
                         (''category'', dict_get d ''category''),
                         (''received_at'', PStr (isoformat now))]"])
       (simp add: process_inventory_record_def)
qed

text \<open>The two sample records of the tests.\<close>

theorem process_record_stores_named_fields_witness:
  "(\<exists>r. process_customer_record (IntegrationConsumer default_config construction_time)
            sample_customer startup_time =
          Inr ((IntegrationConsumer default_config construction_time)\<lparr>customer_records := [r]\<rparr>) \<and>
        map_of r ''name'' = Some (PStr ''John Doe'') \<and>
        map_of r ''received_at'' = Some (PStr ''2024-01-15T10:30:05'')) \<and>
   (\<exists>r. process_inventory_record (IntegrationConsumer default_config construction_time)
            sample_product startup_time =
          Inr ((IntegrationConsumer default_config construction_time)\<lparr>inventory_records := [r]\<rparr>) \<and>
        map_of r ''price'' = Some (PFloat ''999.99'') \<and>
        map_of r ''received_at'' = Some (PStr ''2024-01-15T10:30:05''))"
  using process_record_stores_named_fields
          [of "IntegrationConsumer default_config construction_time"
              "[(''id'', PInt 1), (''name'', PStr ''John Doe''), (''email'', PStr ''john@example.com''),
                (''status'', PStr ''active''), (''created_date'', PStr ''2024-01-15'')]" startup_time]
        process_record_stores_named_fields
          [of "IntegrationConsumer default_config construction_time"
              "[(''id'', PInt 101), (''name'', PStr ''Laptop''), (''price'', PFloat ''999.99''),
                (''quantity'', PInt 50), (''category'', PStr ''Electronics'')]" startup_time]
  by (auto simp: sample_customer_def sample_product_def dict_get_def startup_time_def
        IntegrationConsumer_def)

text \<open>Claim C2 as stated fails: a payload with the keys id and phone is stored without phone, and with a name (None) that the payload does not have.\<close>

theorem extra_field_not_stored:
  "process_customer_record (IntegrationConsumer default_config construction_time)
     (PDict [(''id'', PInt 7), (''phone'', PStr ''555-0100'')]) startup_time =
   Inr ((IntegrationConsumer default_config construction_time)
          \<lparr>customer_records :=
             [[(''id'', PInt 7), (''name'', PNone), (''email'', PNone), (''status'', PNone),
               (''created_date'', PNone), (''received_at'', PStr ''2024-01-15T10:30:05'')]]\<rparr>) \<and>
   map_of [(''id'', PInt 7), (''phone'', PStr ''555-0100'')] ''phone'' = Some (PStr ''555-0100'') \<and>
   map_of [(''id'', PInt 7), (''name'', PNone), (''email'', PNone), (''status'', PNone),
           (''created_date'', PNone), (''received_at'', PStr ''2024-01-15T10:30:05'')] ''phone'' = None \<and>
   map_of [(''id'', PInt 7), (''phone'', PStr ''555-0100'')] ''name'' = None \<and>
   map_of [(''id'', PInt 7), (''name'', PNone), (''email'', PNone), (''status'', PNone),
           (''created_date'', PNone), (''received_at'', PStr ''2024-01-15T10:30:05'')] ''name'' = Some PNone"
  by (simp add: process_customer_record_def dict_get_def IntegrationConsumer_def startup_time_def)

text \<open>
  Claim C10, as the code has it: every record that \<^verbatim>\<open>process_customer_record\<close> stores
  has exactly the keys id, name, email, status, created\_date, received\_at, and every
  record that \<^verbatim>\<open>process_inventory_record\<close> stores has exactly the keys id, name, price,
  quantity, category, received\_at. A key of the payload outside this set is not in the
  record. Each of the five keys other than received\_at that the payload lacks is stored
  with None; received\_at is never read from the payload and always holds the time of
  the append, also when the payload lacks it. (A record is stored only for a dict
  payload.)
\<close>

theorem stored_record_has_fixed_keys:
  "(process_customer_record c v now = Inr c' \<longrightarrow>
      (\<exists>d r. v = PDict d \<and> customer_records c' = customer_records c @ [r] \<and>
         map fst r = [''id'', ''name'', ''email'', ''status'', ''created_date'', ''received_at''] \<and>
         (\<forall>k \<in> set [''id'', ''name'', ''email'', ''status'', ''created_date''].
            map_of d k = None \<longrightarrow> map_of r k = Some PNone) \<and>
         map_of r ''received_at'' = Some (PStr (isoformat now)) \<and>
         (\<forall>k \<in> fst ` set d.
            k \<notin> set [''id'', ''name'', ''email'', ''status'', ''created_date'', ''received_at'']
              \<longrightarrow> k \<notin> fst ` set r))) \<and>
   (process_inventory_record c v now = Inr c'' \<longrightarrow>
      (\<exists>d r. v = PDict d \<and> inventory_records c'' = inventory_records c @ [r] \<and>
         map fst r = [''id'', ''name'', ''price'', ''quantity'', ''category'', ''received_at''] \<and>
         (\<forall>k \<in> set [''id'', ''name'', ''price'', ''quantity'', ''category''].
            map_of d k = None \<longrightarrow> map_of r k = Some PNone) \<and>
         map_of r ''received_at'' = Some (PStr (isoformat now)) \<and>
         (\<forall>k \<in> fst ` set d.
            k \<notin> set [''id'', ''name'', ''price'', ''quantity'', ''category'', ''received_at'']
              \<longrightarrow> k \<notin> fst ` set r)))"
  by (cases v) (auto simp: process_customer_record_def process_inventory_record_def dict_get_def)

text \<open>A payload with the keys id and phone, through both methods.\<close>

theorem stored_record_has_fixed_keys_witness:
  "process_customer_record (IntegrationConsumer default_config construction_time)
     (PDict [(''id'', PInt 7), (''phone'', PStr ''555-0100'')]) startup_time =
   Inr ((IntegrationConsumer default_config construction_time)
          \<lparr>customer_records :=
             [[(''id'', PInt 7), (''name'', PNone), (''email'', PNone), (''status'', PNone),
               (''created_date'', PNone), (''received_at'', PStr ''2024-01-15T10:30:05'')]]\<rparr>) \<and>
   process_inventory_record (IntegrationConsumer default_config construction_time)
     (PDict [(''id'', PInt 7), (''phone'', PStr ''555-0100'')]) startup_time =
   Inr ((IntegrationConsumer default_config construction_time)
          \<lparr>inventory_records :=
             [[(''id'', PInt 7), (''name'', PNone), (''price'', PNone), (''quantity'', PNone),
               (''category'', PNone), (''received_at'', PStr ''2024-01-15T10:30:05'')]]\<rparr>) \<and>
   (\<exists>r. customer_records ((IntegrationConsumer default_config construction_time)
          \<lparr>customer_records :=
             [[(''id'', PInt 7), (''name'', PNone), (''email'', PNone), (''status'', PNone),
               (''created_date'', PNone), (''received_at'', PStr ''2024-01-15T10:30:05'')]]\<rparr>) = [r] \<and>
        map fst r = [''id'', ''name'', ''email'', ''status'', ''created_date'', ''received_at''] \<and>
        map_of r ''email'' = Some PNone \<and> map_of r ''phone'' = None \<and>
        map_of r ''received_at'' = Some (PStr ''2024-01-15T10:30:05''))"
  using stored_record_has_fixed_keys
          [of "IntegrationConsumer default_config construction_time"
              "PDict [(''id'', PInt 7), (''phone'', PStr ''555-0100'')]" startup_time
              "(IntegrationConsumer default_config construction_time)
                \<lparr>customer_records :=
                   [[(''id'', PInt 7), (''name'', PNone), (''email'', PNone), (''status'', PNone),
                     (''created_date'', PNone), (''received_at'', PStr ''2024-01-15T10:30:05'')]]\<rparr>"
              "(IntegrationConsumer default_config construction_time)
                \<lparr>inventory_records :=
                   [[(''id'', PInt 7), (''name'', PNone), (''price'', PNone), (''quantity'', PNone),
                     (''category'', PNone), (''received_at'', PStr ''2024-01-15T10:30:05'')]]\<rparr>"]
  by (simp add: process_customer_record_def process_inventory_record_def dict_get_def
        startup_time_def IntegrationConsumer_def)

text \<open>Claim C10 as stated fails at the key received\_at: the payload has only the key id,
  so received\_at is a key of the set that the payload lacks, and the record of either
  method holds the time of the append under it, not None.\<close>

theorem received_at_absent_not_stored_null:
  "map_of [(''id'', PInt 7)] ''received_at'' = None \<and>
   process_customer_record (IntegrationConsumer default_config construction_time)
     (PDict [(''id'', PInt 7)]) startup_time =
   Inr ((IntegrationConsumer default_config construction_time)
          \<lparr>customer_records :=
             [[(''id'', PInt 7), (''name'', PNone), (''email'', PNone), (''status'', PNone),
               (''created_date'', PNone), (''received_at'', PStr ''2024-01-15T10:30:05'')]]\<rparr>) \<and>
   map_of [(''id'', PInt 7), (''name'', PNone), (''email'', PNone), (''status'', PNone),
           (''created_date'', PNone), (''received_at'', PStr ''2024-01-15T10:30:05'')]
     ''received_at'' = Some (PStr ''2024-01-15T10:30:05'') \<and>
   process_inventory_record (IntegrationConsumer default_config construction_time)
     (PDict [(''id'', PInt 7)]) startup_time =
   Inr ((IntegrationConsumer default_config construction_time)
          \<lparr>inventory_records :=
             [[(''id'', PInt 7), (''name'', PNone), (''price'', PNone), (''quantity'', PNone),
               (''category'', PNone), (''received_at'', PStr ''2024-01-15T10:30:05'')]]\<rparr>) \<and>
   map_of [(''id'', PInt 7), (''name'', PNone), (''price'', PNone), (''quantity'', PNone),
           (''category'', PNone), (''received_at'', PStr ''2024-01-15T10:30:05'')]
     ''received_at'' = Some (PStr ''2024-01-15T10:30:05'') \<and>
   PStr ''2024-01-15T10:30:05'' \<noteq> PNone"
  by (simp add: process_customer_record_def process_inventory_record_def dict_get_def
        IntegrationConsumer_def startup_time_def)

section \<open>The batch and the dispatch\<close>

text \<open>
  Claim C3, as the code has it: when at least one buffer is not empty, the batch of the
  POST holds the full contents of both buffers; and when the POST is answered with status
  200, each buffer is afterwards empty if it held at most 100 records, and is exactly its
  last 100 records if it held more.
\<close>

theorem snapshot_full_retain_on_200:
  assumes "customer_records c \<noteq> [] \<or> inventory_records c \<noteq> []"
  shows "map (customers \<circ> json) (posts (merge_and_send_data c now outcome)) = [customer_records c] \<and>
         map (inventory \<circ> json) (posts (merge_and_send_data c now outcome)) = [inventory_records c] \<and>
         (outcome = Response 200 text \<longrightarrow>
            (length (customer_records c) \<le> 100 \<longrightarrow>
               customer_records (state (merge_and_send_data c now outcome)) = []) \<and>
            (length (customer_records c) > 100 \<longrightarrow>
               customer_records (state (merge_and_send_data c now outcome)) =
                 drop (length (customer_records c) - 100) (customer_records c) \<and>
               length (customer_records (state (merge_and_send_data c now outcome))) = 100) \<and>
            (length (inventory_records c) \<le> 100 \<longrightarrow>
               inventory_records (state (merge_and_send_data c now outcome)) = []) \<and>
            (length (inventory_records c) > 100 \<longrightarrow>
               inventory_records (state (merge_and_send_data c now outcome)) =
                 drop (length (inventory_records c) - 100) (inventory_records c) \<and>
               length (inventory_records (state (merge_and_send_data c now outcome))) = 100))"
  using assms
  by (cases outcome) (auto simp: merge_and_send_data_def Let_def slice_last_def)

text \<open>With 105 customer records and status 200: all 105 are in the batch and the last 100 remain.\<close>

theorem snapshot_full_retain_on_200_witness:
  "length (customer_records many_customers) = 105 \<and>
   map (customers \<circ> json) (posts (merge_and_send_data many_customers startup_time (Response 200 ''ok'')))
     = [customer_records many_customers] \<and>
   length (customer_records (state (merge_and_send_data many_customers startup_time (Response 200 ''ok''))))
     = 100 \<and>
   customer_records (state (merge_and_send_data many_customers startup_time (Response 200 ''ok'')))
     = drop 5 (customer_records many_customers)"
proof -
  have n: "length (customer_records many_customers) = 105"
    by (simp add: many_customers_def)
  then have h: "customer_records many_customers \<noteq> [] \<or> inventory_records many_customers \<noteq> []"
    by auto
  from snapshot_full_retain_on_200 [OF h, of startup_time "Response 200 ''ok''" "''ok''"] n
  show ?thesis by simp
qed

text \<open>Claim C3 as stated fails: with 105 customer records and a POST that times out, the buffer is not its last 100 records afterwards.\<close>

theorem buffer_not_cut_on_timeout:
  "customer_records (state (merge_and_send_data many_customers startup_time
      (RequestException ''timed out''))) \<noteq>
   drop (length (customer_records many_customers) - 100) (customer_records many_customers)"
proof
  assume "customer_records (state (merge_and_send_data many_customers startup_time
      (RequestException ''timed out''))) =
   drop (length (customer_records many_customers) - 100) (customer_records many_customers)"
  then have "length (customer_records (state (merge_and_send_data many_customers startup_time
      (RequestException ''timed out'')))) =
   length (drop (length (customer_records many_customers) - 100) (customer_records many_customers))"
    by simp
  then show False
    by (simp add: merge_and_send_data_def many_customers_def IntegrationConsumer_def)
qed

text \<open>
  Claim C5: when at least one buffer is not empty, \<^verbatim>\<open>merge_and_send_data\<close> calls
  \<^verbatim>\<open>requests.post\<close> exactly once, and in the body of that call total\_customers is the
  number of customer records, total\_products is the number of inventory records,
  active\_customers is the number of customer records whose status is the string
  active, and customers and inventory are the two buffers, in their order.
\<close>

theorem merge_posts_one_batch:
  assumes "customer_records c \<noteq> [] \<or> inventory_records c \<noteq> []"
  shows "\<exists>req. posts (merge_and_send_data c now outcome) = [req] \<and>
           total_customers (summary (json req)) = length (customer_records c) \<and>
           total_products (summary (json req)) = length (inventory_records c) \<and>
           active_customers (summary (json req)) =
             length (filter (\<lambda>r. map_of r ''status'' = Some (PStr ''active'')) (customer_records c)) \<and>
           customers (json req) = customer_records c \<and>
           inventory (json req) = inventory_records c"
  using assms by (cases outcome) (auto simp: merge_and_send_data_def Let_def dict_get_PStr)

text \<open>One active customer and one product.\<close>

theorem merge_posts_one_batch_witness:
  "customer_records john_and_laptop \<noteq> [] \<and>
   (\<exists>req. posts (merge_and_send_data john_and_laptop startup_time (Response 200 ''ok'')) = [req] \<and>
      total_customers (summary (json req)) = 1 \<and>
      total_products (summary (json req)) = 1 \<and>
      active_customers (summary (json req)) = 1 \<and>
      customers (json req) = customer_records john_and_laptop \<and>
      inventory (json req) = inventory_records john_and_laptop)"
proof -
  have n: "customer_records john_and_laptop \<noteq> []"
    by (simp add: john_and_laptop_def)
  then have h: "customer_records john_and_laptop \<noteq> [] \<or> inventory_records john_and_laptop \<noteq> []"
    by simp
  have "length (customer_records john_and_laptop) = 1"
       "length (inventory_records john_and_laptop) = 1"
       "length (filter (\<lambda>r. map_of r ''status'' = Some (PStr ''active''))
          (customer_records john_and_laptop)) = 1"
    by (simp_all add: john_and_laptop_def)
  with merge_posts_one_batch [OF h, of startup_time "Response 200 ''ok''"] n
  show ?thesis by simp
qed

text \<open>
  Claim C6: with both buffers empty, \<^verbatim>\<open>merge_and_send_data\<close> makes no HTTP call, raises
  nothing and leaves the consumer as it was, whatever the POST would have done.
\<close>

theorem merge_empty_is_noop:
  assumes "customer_records c = []" and "inventory_records c = []"
  shows "merge_and_send_data c now outcome = \<lparr>state = c, posts = [], raised = None\<rparr>"
  using assms by (simp add: merge_and_send_data_def)

text \<open>A consumer that was just constructed.\<close>

theorem merge_empty_is_noop_witness:
  "customer_records (IntegrationConsumer default_config construction_time) = [] \<and>
   inventory_records (IntegrationConsumer default_config construction_time) = [] \<and>
   merge_and_send_data (IntegrationConsumer default_config construction_time) startup_time
      (Response 200 ''ok'') =
     \<lparr>state = IntegrationConsumer default_config construction_time, posts = [], raised = None\<rparr>"
  using merge_empty_is_noop [of "IntegrationConsumer default_config construction_time"
          startup_time "Response 200 ''ok''"]
  by (simp add: IntegrationConsumer_def)

text \<open>
  Claim C7: for every buffer state, when the POST returns a response (status 200 or any
  other status) or raises a RequestException (a network error or a timeout),
  \<^verbatim>\<open>merge_and_send_data\<close> has called \<^verbatim>\<open>requests.post\<close> at most once and returns
  to its caller without raising.
\<close>

theorem merge_single_attempt_returns:
  assumes "outcome = Response status_code text \<or> outcome = RequestException e"
  shows "length (posts (merge_and_send_data c now outcome)) \<le> 1 \<and>
         raised (merge_and_send_data c now outcome) = None"
  using assms by (auto simp: merge_and_send_data_def Let_def)

text \<open>One buffered record and status 500; one buffered record and a timeout.\<close>

theorem merge_single_attempt_returns_witness:
  "length (posts (merge_and_send_data one_customer startup_time
      (Response 500 ''Internal Server Error''))) = 1 \<and>
   raised (merge_and_send_data one_customer startup_time
      (Response 500 ''Internal Server Error'')) = None \<and>
   length (posts (merge_and_send_data one_customer startup_time
      (RequestException ''timed out''))) = 1 \<and>
   raised (merge_and_send_data one_customer startup_time (RequestException ''timed out'')) = None"
proof -
  have a: "Response 500 ''Internal Server Error'' = Response 500 ''Internal Server Error'' \<or>
           Response 500 ''Internal Server Error'' = RequestException ''timed out''"
    by simp
  have b: "RequestException ''timed out'' = Response 500 ''Internal Server Error'' \<or>
           RequestException ''timed out'' = RequestException ''timed out''"
    by simp
  have n: "customer_records one_customer \<noteq> []"
    by (simp add: one_customer_def)
  from n have p1: "length (posts (merge_and_send_data one_customer startup_time
      (Response 500 ''Internal Server Error''))) = 1"
    by (simp add: merge_and_send_data_def Let_def)
  from n have p2: "length (posts (merge_and_send_data one_customer startup_time
      (RequestException ''timed out''))) = 1"
    by (simp add: merge_and_send_data_def Let_def)
  from merge_single_attempt_returns [OF a, of one_customer startup_time]
       merge_single_attempt_returns [OF b, of one_customer startup_time] p1 p2
  show ?thesis by simp
qed

text \<open>
  Claim C8: in every batch that \<^verbatim>\<open>merge_and_send_data\<close> posts, active\_customers is at
  most total\_customers.
\<close>

theorem active_customers_le_total:
  "\<forall>req \<in> set (posts (merge_and_send_data c now outcome)).
     active_customers (summary (json req)) \<le> total_customers (summary (json req))"
  by (cases outcome) (auto simp: merge_and_send_data_def Let_def)

text \<open>One active customer and one product.\<close>

theorem active_customers_le_total_witness:
  "length (posts (merge_and_send_data john_and_laptop startup_time (Response 200 ''ok''))) = 1 \<and>
   active_customers (summary (json (hd (posts
      (merge_and_send_data john_and_laptop startup_time (Response 200 ''ok'')))))) \<le>
   total_customers (summary (json (hd (posts
      (merge_and_send_data john_and_laptop startup_time (Response 200 ''ok''))))))"
  using active_customers_le_total [of john_and_laptop startup_time "Response 200 ''ok''"]
  by (simp add: merge_and_send_data_def john_and_laptop_def IntegrationConsumer_def)

section \<open>The loop: routing and the schedule\<close>

text \<open>
  Claim C9: for a message whose topic is neither the customer topic nor the inventory
  topic, the routing appends nothing and raises nothing: it returns the consumer as it
  was, so the pass of the loop is the check of the schedule on the unchanged consumer,
  and when no flush is due the pass changes nothing and makes no HTTP call.
\<close>

theorem unrecognized_topic_ignored:
  assumes "topic m \<noteq> CUSTOMER_TOPIC (config c)" and "topic m \<noteq> INVENTORY_TOPIC (config c)"
  shows "route_message c m (t_receive e) = Inr c \<and>
         consume_step c m e = flush_if_due c e \<and>
         (\<not> should_merge_data c (t_check e) \<longrightarrow>
            consume_step c m e = \<lparr>state = c, posts = [], raised = None\<rparr>)"
  using assms by (simp add: route_message_def consume_step_def flush_if_due_def)

text \<open>A message on the topic orders, one second after construction.\<close>

theorem unrecognized_topic_ignored_witness:
  "''orders'' \<noteq> CUSTOMER_TOPIC (config one_customer) \<and>
   ''orders'' \<noteq> INVENTORY_TOPIC (config one_customer) \<and>
   \<not> should_merge_data one_customer (t_check early_tick) \<and>
   route_message one_customer \<lparr>topic = ''orders'', msg_value = sample_product\<rparr>
      (t_receive early_tick) = Inr one_customer \<and>
   consume_step one_customer \<lparr>topic = ''orders'', msg_value = sample_product\<rparr> early_tick =
     \<lparr>state = one_customer, posts = [], raised = None\<rparr>"
proof -
  have a: "topic \<lparr>topic = ''orders'', msg_value = sample_product\<rparr> \<noteq>
             CUSTOMER_TOPIC (config one_customer)"
    by (simp add: one_customer_def IntegrationConsumer_def default_config_def)
  have b: "topic \<lparr>topic = ''orders'', msg_value = sample_product\<rparr> \<noteq>
             INVENTORY_TOPIC (config one_customer)"
    by (simp add: one_customer_def IntegrationConsumer_def default_config_def)
  have d: "\<not> should_merge_data one_customer (t_check early_tick)"
    by (simp add: should_merge_data_def timedelta_seconds_def one_customer_def
          IntegrationConsumer_def construction_time_def early_tick_def)
  from unrecognized_topic_ignored [OF a b, of early_tick] d
  have "route_message one_customer \<lparr>topic = ''orders'', msg_value = sample_product\<rparr>
          (t_receive early_tick) = Inr one_customer \<and>
        consume_step one_customer \<lparr>topic = ''orders'', msg_value = sample_product\<rparr> early_tick =
          \<lparr>state = one_customer, posts = [], raised = None\<rparr>"
    by blast
  with a b d show ?thesis
    by simp
qed

text \<open>
  Claim C4, as the code has it: after a flush attempt made by the loop of
  \<^verbatim>\<open>consume_messages\<close> whose POST returned a response (of any status) or raised a
  RequestException, or that found both buffers empty, \<^verbatim>\<open>last_merge_time\<close> is
  the reading of the clock taken right after the attempt. \<^verbatim>\<open>merge_and_send_data\<close>
  itself never assigns \<^verbatim>\<open>last_merge_time\<close>, so the flush attempt that \<^verbatim>\<open>run\<close>
  makes at startup, before the loop, leaves \<^verbatim>\<open>last_merge_time\<close> as it was.
\<close>

theorem loop_flush_resets_last_merge_time:
  "(route_message c m (t_receive e) = Inr c' \<and> should_merge_data c' (t_check e) \<and>
      (\<forall>x. post_outcome e \<noteq> OtherException x) \<longrightarrow>
        last_merge_time (state (consume_step c m e)) = t_reset e) \<and>
   last_merge_time (state (merge_and_send_data c now outcome)) = last_merge_time c \<and>
   last_merge_time (state (run c now outcome [])) = last_merge_time c"
proof (intro conjI impI)
  assume h: "route_message c m (t_receive e) = Inr c' \<and> should_merge_data c' (t_check e) \<and>
      (\<forall>x. post_outcome e \<noteq> OtherException x)"
  then have "raised (merge_and_send_data c' (t_merge e) (post_outcome e)) = None"
    by (cases "post_outcome e") (auto simp: merge_and_send_data_def Let_def)
  with h show "last_merge_time (state (consume_step c m e)) = t_reset e"
    by (simp add: consume_step_def flush_if_due_def Let_def)
next
  show m: "last_merge_time (state (merge_and_send_data c now outcome)) = last_merge_time c"
    by (simp add: merge_state_cases)
  show "last_merge_time (state (run c now outcome [])) = last_merge_time c"
    using m by (cases "raised (merge_and_send_data c now outcome)") (simp_all add: run_def Let_def)
qed

text \<open>A customer message 61 seconds after construction, with a POST answered by status 500.\<close>

theorem loop_flush_resets_last_merge_time_witness:
  "route_message (IntegrationConsumer default_config construction_time)
      \<lparr>topic = ''customer_data'', msg_value = sample_customer\<rparr> (t_receive due_tick) =
     Inr ((IntegrationConsumer default_config construction_time)
            \<lparr>customer_records :=
               [[(''id'', PInt 1), (''name'', PStr ''John Doe''), (''email'', PStr ''john@example.com''),
                 (''status'', PStr ''active''), (''created_date'', PStr ''2024-01-15''),
                 (''received_at'', PStr ''2024-01-15T10:31:01'')]]\<rparr>) \<and>
   should_merge_data
     ((IntegrationConsumer default_config construction_time)
            \<lparr>customer_records :=
               [[(''id'', PInt 1), (''name'', PStr ''John Doe''), (''email'', PStr ''john@example.com''),
                 (''status'', PStr ''active''), (''created_date'', PStr ''2024-01-15''),
                 (''received_at'', PStr ''2024-01-15T10:31:01'')]]\<rparr>) (t_check due_tick) \<and>
   post_outcome due_tick = Response 500 ''Internal Server Error'' \<and>
   last_merge_time (state (consume_step (IntegrationConsumer default_config construction_time)
      \<lparr>topic = ''customer_data'', msg_value = sample_customer\<rparr> due_tick)) = t_reset due_tick"
  using loop_flush_resets_last_merge_time
    [of "IntegrationConsumer default_config construction_time"
        "\<lparr>topic = ''customer_data'', msg_value = sample_customer\<rparr>" due_tick
        "(IntegrationConsumer default_config construction_time)
            \<lparr>customer_records :=
               [[(''id'', PInt 1), (''name'', PStr ''John Doe''), (''email'', PStr ''john@example.com''),
                 (''status'', PStr ''active''), (''created_date'', PStr ''2024-01-15''),
                 (''received_at'', PStr ''2024-01-15T10:31:01'')]]\<rparr>"]
  by (simp add: route_message_def process_customer_record_def sample_customer_def dict_get_def
        IntegrationConsumer_def default_config_def due_tick_def construction_time_def
        should_merge_data_def timedelta_seconds_def)

text \<open>Claim C4 as stated fails: \<^verbatim>\<open>run\<close> posts the one buffered record at startup, five seconds after construction, and \<^verbatim>\<open>last_merge_time\<close> is still the time of construction.\<close>

theorem startup_flush_keeps_last_merge_time:
  "length (posts (run one_customer startup_time (Response 200 ''ok'') [])) = 1 \<and>
   last_merge_time (state (run one_customer startup_time (Response 200 ''ok'') [])) = construction_time \<and>
   construction_time \<noteq> startup_time"
  by (simp add: run_def merge_and_send_data_def one_customer_def IntegrationConsumer_def
        construction_time_def startup_time_def)

end
